theory Spec2Isabelle
  imports Main "HOL-Library.AList"
begin

section \<open>Python values and the library primitives the client relies on\<close>

text \<open>
  The values that reach the client are decoded JSON: \<open>None\<close>, booleans, integers, strings,
  lists and dictionaries. Floating-point numbers are left out. A Python \<open>str\<close> is a
  \<open>string\<close> whose characters stand for code points below 256, so \<open>length\<close> is Python's
  \<open>len\<close>. A dictionary is an association list in insertion order with distinct keys.
\<close>

datatype json =
    JNull
  | JBool bool
  | JInt int
  | JStr string
  | JArr "json list"
  | JObj "(string \<times> json) list"

text \<open>
  Exceptions are values; \<open>Inl\<close> of a result is the exception that was raised. \<open>Untyped\<close>
  is no exception of Python: it marks the place where a decoded value does not have the
  type that the dataclass field receiving it is annotated with.
\<close>

datatype py_error =
    ValueError string
  | Exception string
  | IndexError
  | KeyError string
  | TypeError
  | AttributeError
  | JSONDecodeError
  | ConnectionError string
  | RecursionError
  | Untyped

type_synonym 'a result = "py_error + 'a"

definition and_then :: "'a result \<Rightarrow> ('a \<Rightarrow> 'b result) \<Rightarrow> 'b result" where
  "and_then m f = (case m of Inl e \<Rightarrow> Inl e | Inr x \<Rightarrow> f x)"

text \<open>A comprehension whose body may raise: the first exception ends the loop.\<close>

fun mapM :: "('a \<Rightarrow> 'b result) \<Rightarrow> 'a list \<Rightarrow> 'b list result" where
  "mapM f [] = Inr []"
| "mapM f (x # xs) =
     (case f x of
        Inl e \<Rightarrow> Inl e
      | Inr y \<Rightarrow> (case mapM f xs of Inl e \<Rightarrow> Inl e | Inr ys \<Rightarrow> Inr (y # ys)))"

text \<open>\<open>xs[i]\<close> for a non-negative index, and \<open>max\<close> of a sequence.\<close>

definition py_getitem :: "'a list \<Rightarrow> nat \<Rightarrow> 'a result" where
  "py_getitem xs i = (if i < length xs then Inr (xs ! i) else Inl IndexError)"

fun py_max :: "nat list \<Rightarrow> nat result" where
  "py_max [] = Inl (ValueError ''max() arg is an empty sequence'')"
| "py_max (x # xs) = Inr (fold max xs x)"

text \<open>\<open>sep.join(parts)\<close>, \<open>s.ljust(width)\<close> and \<open>'-' * width\<close>.\<close>

fun join :: "string \<Rightarrow> string list \<Rightarrow> string" where
  "join sep [] = []"
| "join sep [x] = x"
| "join sep (x # y # ys) = x @ sep @ join sep (y # ys)"

definition ljust :: "string \<Rightarrow> nat \<Rightarrow> string" where
  "ljust s width = s @ replicate (width - length s) CHR '' ''"

subsection \<open>\<open>str\<close> and \<open>repr\<close>\<close>

definition digit_char :: "nat \<Rightarrow> char" where
  "digit_char n = char_of (48 + n)"

fun str_nat :: "nat \<Rightarrow> string" where
  "str_nat n = (if n < 10 then [digit_char n] else str_nat (n div 10) @ [digit_char (n mod 10)])"

definition str_int :: "int \<Rightarrow> string" where
  "str_int i = (if i < 0 then CHR ''-'' # str_nat (nat (- i)) else str_nat (nat i))"

definition hex_digit :: "nat \<Rightarrow> char" where
  "hex_digit n = (if n < 10 then char_of (48 + n) else char_of (87 + n))"

definition isprintable :: "char \<Rightarrow> bool" where
  "isprintable c =
     (let n = (of_char c :: nat) in (32 \<le> n \<and> n < 127) \<or> (161 \<le> n \<and> n \<noteq> 173))"

definition repr_char :: "char \<Rightarrow> char \<Rightarrow> string" where
  "repr_char q c =
     (if c = q \<or> c = CHR 0x5C then [CHR 0x5C, c]
      else if c = CHR 0x09 then [CHR 0x5C, CHR ''t'']
      else if c = CHR 0x0A then [CHR 0x5C, CHR ''n'']
      else if c = CHR 0x0D then [CHR 0x5C, CHR ''r'']
      else if isprintable c then [c]
      else [CHR 0x5C, CHR ''x'', hex_digit (of_char c div 16), hex_digit (of_char c mod 16)])"

definition repr_str :: "string \<Rightarrow> string" where
  "repr_str s =
     (let q = (if CHR 0x27 \<in> set s \<and> CHR 0x22 \<notin> set s then CHR 0x22 else CHR 0x27)
      in [q] @ concat (map (repr_char q) s) @ [q])"

fun py_repr :: "json \<Rightarrow> string" where
  "py_repr JNull = ''None''"
| "py_repr (JBool b) = (if b then ''True'' else ''False'')"
| "py_repr (JInt i) = str_int i"
| "py_repr (JStr s) = repr_str s"
| "py_repr (JArr xs) = ''['' @ join '', '' (map py_repr xs) @ '']''"
| "py_repr (JObj kvs) =
     ''{'' @ join '', '' (map (\<lambda>kv. repr_str (fst kv) @ '': '' @ py_repr (snd kv)) kvs) @ ''}''"

definition py_str :: "json \<Rightarrow> string" where
  "py_str v = (case v of JStr s \<Rightarrow> s | _ \<Rightarrow> py_repr v)"

subsection \<open>\<open>json.dumps\<close>\<close>

text \<open>
  The standard encoder with \<open>ensure_ascii\<close>: every character outside the range from space
  to tilde is escaped. Without an indent the separators are \<open>", "\<close> and \<open>": "\<close>; with an
  indent of \<open>n\<close> every item starts on a line of its own, \<open>n\<close> spaces deeper per nesting
  level, and the empty list and the empty dictionary stay \<open>[]\<close> and \<open>{}\<close>.
\<close>

definition json_char :: "char \<Rightarrow> string" where
  "json_char c =
     (if c = CHR 0x22 then [CHR 0x5C, CHR 0x22]
      else if c = CHR 0x5C then [CHR 0x5C, CHR 0x5C]
      else if c = CHR 0x0A then [CHR 0x5C, CHR ''n'']
      else if c = CHR 0x0D then [CHR 0x5C, CHR ''r'']
      else if c = CHR 0x09 then [CHR 0x5C, CHR ''t'']
      else if c = CHR 0x08 then [CHR 0x5C, CHR ''b'']
      else if c = CHR 0x0C then [CHR 0x5C, CHR ''f'']
      else if 32 \<le> (of_char c :: nat) \<and> (of_char c :: nat) \<le> 126 then [c]
      else [CHR 0x5C, CHR ''u'', CHR ''0'', CHR ''0'',
            hex_digit (of_char c div 16), hex_digit (of_char c mod 16)])"

definition json_string :: "string \<Rightarrow> string" where
  "json_string s = [CHR 0x22] @ concat (map json_char s) @ [CHR 0x22]"

definition newline_indent :: "nat option \<Rightarrow> nat \<Rightarrow> string" where
  "newline_indent indent level =
     (case indent of None \<Rightarrow> [] | Some n \<Rightarrow> CHR 0x0A # replicate (n * level) CHR '' '')"

definition item_separator :: "nat option \<Rightarrow> nat \<Rightarrow> string" where
  "item_separator indent level =
     (case indent of None \<Rightarrow> '', '' | Some n \<Rightarrow> '','' @ newline_indent indent level)"

fun json_encode :: "nat option \<Rightarrow> nat \<Rightarrow> json \<Rightarrow> string" where
  "json_encode indent level JNull = ''null''"
| "json_encode indent level (JBool b) = (if b then ''true'' else ''false'')"
| "json_encode indent level (JInt i) = str_int i"
| "json_encode indent level (JStr s) = json_string s"
| "json_encode indent level (JArr xs) =
     (if xs = [] then ''[]''
      else ''['' @ newline_indent indent (Suc level)
           @ join (item_separator indent (Suc level)) (map (json_encode indent (Suc level)) xs)
           @ newline_indent indent level @ '']'')"
| "json_encode indent level (JObj kvs) =
     (if kvs = [] then ''{}''
      else ''{'' @ newline_indent indent (Suc level)
           @ join (item_separator indent (Suc level))
               (map (\<lambda>kv. json_string (fst kv) @ '': '' @ json_encode indent (Suc level) (snd kv)) kvs)
           @ newline_indent indent level @ ''}'')"

definition json_dumps :: "nat option \<Rightarrow> json \<Rightarrow> string" where
  "json_dumps indent obj = json_encode indent 0 obj"

text \<open>
  \<open>dict(pairs)\<close>: a key that comes again keeps the place of its first insertion and takes
  the later value.
\<close>

definition py_dict :: "(string \<times> json) list \<Rightarrow> (string \<times> json) list" where
  "py_dict pairs = foldl (\<lambda>d kv. AList.update (fst kv) (snd kv) d) [] pairs"

section \<open>The data model\<close>

record Catalog =
  catalogName :: string

record Schema =
  TABLE_CATALOG :: string
  TABLE_SCHEMA :: string

text \<open>
  The first two fields of a table carry the prefix \<open>T_\<close> here, since a field name
  belongs to one record.
\<close>

record Table =
  T_TABLE_CATALOG :: string
  T_TABLE_SCHEMA :: string
  TABLE_NAME :: string
  TABLE_TYPE :: string
  REMARKS :: "string option"

record ColumnSchema =
  columnName :: string
  dataTypeName :: string
  nullable :: "bool option"

record QueryResult =
  schema :: "ColumnSchema list"
  rows :: "json list list"
  affectedRows :: "int option"

section \<open>The result formatter\<close>

text \<open>\<open>[col.columnName for col in result.schema]\<close>\<close>

definition headers_of :: "QueryResult \<Rightarrow> string list" where
  "headers_of result = map columnName (schema result)"

text \<open>\<open>row[i] if i < len(row) else ''\<close>\<close>

definition cell :: "json list \<Rightarrow> nat \<Rightarrow> json result" where
  "cell row i = (if i < length row then py_getitem row i else Inr (JStr []))"

text \<open>\<open>max(len(str(row[i] if i < len(row) else '')) for row in result.rows)\<close>\<close>

definition max_data_width :: "json list list \<Rightarrow> nat \<Rightarrow> nat result" where
  "max_data_width rws i =
     and_then (mapM (\<lambda>row. and_then (cell row i) (\<lambda>v. Inr (length (py_str v)))) rws) py_max"

text \<open>The loop that fills \<open>column_widths\<close>.\<close>

definition column_widths :: "QueryResult \<Rightarrow> nat list result" where
  "column_widths result =
     mapM (\<lambda>ih. and_then (max_data_width (rows result) (fst ih))
                   (\<lambda>max_data_width. Inr (max (length (snd ih)) max_data_width)))
          (List.enumerate 0 (headers_of result))"

definition header_row :: "string list \<Rightarrow> nat list \<Rightarrow> string result" where
  "header_row headers widths =
     and_then (mapM (\<lambda>ih. and_then (py_getitem widths (fst ih)) (\<lambda>w. Inr (ljust (snd ih) w)))
                 (List.enumerate 0 headers))
       (\<lambda>cells. Inr (join '' | '' cells))"

definition separator :: "nat list \<Rightarrow> string" where
  "separator widths = join ''-+-'' (map (\<lambda>width. replicate width CHR ''-'') widths)"

definition formatted_row :: "string list \<Rightarrow> nat list \<Rightarrow> json list \<Rightarrow> string result" where
  "formatted_row headers widths row =
     and_then (mapM (\<lambda>i. and_then (cell row i) (\<lambda>v.
                          and_then (py_getitem widths i) (\<lambda>w. Inr (ljust (py_str v) w))))
                 [0 ..< length headers])
       (\<lambda>cells. Inr (join '' | '' cells))"

text \<open>The list \<open>[header_row, separator] + data_rows\<close> that the tabular branch joins.\<close>

definition table_lines :: "QueryResult \<Rightarrow> string list result" where
  "table_lines result =
     and_then (column_widths result) (\<lambda>widths.
     and_then (header_row (headers_of result) widths) (\<lambda>hrow.
     and_then (mapM (formatted_row (headers_of result) widths) (rows result)) (\<lambda>data_rows.
     Inr ([hrow, separator widths] @ data_rows))))"

text \<open>The records of compact mode: \<open>[dict(zip(headers, row)) for row in result.rows]\<close>.\<close>

definition compact_records :: "QueryResult \<Rightarrow> (string \<times> json) list list" where
  "compact_records result = map (\<lambda>row. py_dict (zip (headers_of result) row)) (rows result)"

definition format_query_results :: "QueryResult \<Rightarrow> bool \<Rightarrow> string result" where
  "format_query_results result compact =
     (if rows result = [] then Inr ''No results found.''
      else if compact then Inr (json_dumps (Some 2) (JArr (map JObj (compact_records result))))
      else and_then (table_lines result) (\<lambda>lines. Inr (join [CHR 0x0A] lines)))"

section \<open>The formatter under the limits of the interpreter\<close>

text \<open>
  The functions \<open>py_str\<close> and \<open>json_dumps\<close> above give the text that \<open>str\<close> and
  \<open>json.dumps\<close> return when they return. CPython bounds both. Since version 3.11 the
  conversion of an integer of more than 4300 decimal digits to text raises \<open>ValueError\<close>,
  and rendering lists and dictionaries nested deeper than the interpreter still allows
  raises \<open>RecursionError\<close>. How deep that is depends on the state of the interpreter at
  the call, so it is a parameter here: \<open>repr_depth\<close> for \<open>str\<close> and \<open>dumps_depth\<close> for
  \<open>json.dumps\<close> count the containers that may still be entered. The definitions of this
  section are those of the formatter again, with the two library functions bounded.
\<close>

record runtime =
  repr_depth :: nat
  dumps_depth :: nat

definition max_str_digits :: nat where
  "max_str_digits = 4300"

definition int_digits :: "int \<Rightarrow> nat" where
  "int_digits i = length (str_nat (nat \<bar>i\<bar>))"

definition digit_limit_error :: py_error where
  "digit_limit_error =
     ValueError (''Exceeds the limit (4300 digits) for integer string conversion; ''
                 @ ''use sys.set_int_max_str_digits() to increase the limit'')"

definition str_int_rt :: "int \<Rightarrow> string result" where
  "str_int_rt i = (if int_digits i > max_str_digits then Inl digit_limit_error else Inr (str_int i))"

fun py_repr_rt :: "nat \<Rightarrow> json \<Rightarrow> string result" where
  "py_repr_rt d (JInt i) = str_int_rt i"
| "py_repr_rt 0 (JArr xs) = Inl RecursionError"
| "py_repr_rt (Suc d) (JArr xs) =
     and_then (mapM (py_repr_rt d) xs) (\<lambda>parts. Inr (''['' @ join '', '' parts @ '']''))"
| "py_repr_rt 0 (JObj kvs) = Inl RecursionError"
| "py_repr_rt (Suc d) (JObj kvs) =
     and_then (mapM (\<lambda>kv. and_then (py_repr_rt d (snd kv))
                          (\<lambda>r. Inr (repr_str (fst kv) @ '': '' @ r))) kvs)
       (\<lambda>parts. Inr (''{'' @ join '', '' parts @ ''}''))"
| "py_repr_rt d v = Inr (py_repr v)"

definition py_str_rt :: "nat \<Rightarrow> json \<Rightarrow> string result" where
  "py_str_rt d v = (case v of JStr s \<Rightarrow> Inr s | _ \<Rightarrow> py_repr_rt d v)"

fun json_encode_rt :: "nat \<Rightarrow> nat option \<Rightarrow> nat \<Rightarrow> json \<Rightarrow> string result" where
  "json_encode_rt d indent level (JInt i) = str_int_rt i"
| "json_encode_rt 0 indent level (JArr xs) = Inl RecursionError"
| "json_encode_rt (Suc d) indent level (JArr xs) =
     (if xs = [] then Inr ''[]''
      else and_then (mapM (json_encode_rt d indent (Suc level)) xs) (\<lambda>parts.
             Inr (''['' @ newline_indent indent (Suc level)
                  @ join (item_separator indent (Suc level)) parts
                  @ newline_indent indent level @ '']'')))"
| "json_encode_rt 0 indent level (JObj kvs) = Inl RecursionError"
| "json_encode_rt (Suc d) indent level (JObj kvs) =
     (if kvs = [] then Inr ''{}''
      else and_then (mapM (\<lambda>kv. and_then (json_encode_rt d indent (Suc level) (snd kv))
                                 (\<lambda>r. Inr (json_string (fst kv) @ '': '' @ r))) kvs) (\<lambda>parts.
             Inr (''{'' @ newline_indent indent (Suc level)
                  @ join (item_separator indent (Suc level)) parts
                  @ newline_indent indent level @ ''}'')))"
| "json_encode_rt d indent level v = Inr (json_encode indent level v)"

definition json_dumps_rt :: "nat \<Rightarrow> nat option \<Rightarrow> json \<Rightarrow> string result" where
  "json_dumps_rt d indent obj = json_encode_rt d indent 0 obj"

definition max_data_width_rt :: "runtime \<Rightarrow> json list list \<Rightarrow> nat \<Rightarrow> nat result" where
  "max_data_width_rt rt rws i =
     and_then (mapM (\<lambda>row. and_then (cell row i) (\<lambda>v.
                            and_then (py_str_rt (repr_depth rt) v) (\<lambda>s. Inr (length s)))) rws)
       py_max"

definition column_widths_rt :: "runtime \<Rightarrow> QueryResult \<Rightarrow> nat list result" where
  "column_widths_rt rt result =
     mapM (\<lambda>ih. and_then (max_data_width_rt rt (rows result) (fst ih))
                   (\<lambda>max_data_width. Inr (max (length (snd ih)) max_data_width)))
          (List.enumerate 0 (headers_of result))"

definition formatted_row_rt :: "runtime \<Rightarrow> string list \<Rightarrow> nat list \<Rightarrow> json list \<Rightarrow> string result" where
  "formatted_row_rt rt headers widths row =
     and_then (mapM (\<lambda>i. and_then (cell row i) (\<lambda>v.
                          and_then (py_str_rt (repr_depth rt) v) (\<lambda>s.
                          and_then (py_getitem widths i) (\<lambda>w. Inr (ljust s w)))))
                 [0 ..< length headers])
       (\<lambda>cells. Inr (join '' | '' cells))"

definition table_lines_rt :: "runtime \<Rightarrow> QueryResult \<Rightarrow> string list result" where
  "table_lines_rt rt result =
     and_then (column_widths_rt rt result) (\<lambda>widths.
     and_then (header_row (headers_of result) widths) (\<lambda>hrow.
     and_then (mapM (formatted_row_rt rt (headers_of result) widths) (rows result)) (\<lambda>data_rows.
     Inr ([hrow, separator widths] @ data_rows))))"

definition format_query_results_rt :: "runtime \<Rightarrow> QueryResult \<Rightarrow> bool \<Rightarrow> string result" where
  "format_query_results_rt rt result compact =
     (if rows result = [] then Inr ''No results found.''
      else if compact
      then json_dumps_rt (dumps_depth rt) (Some 2) (JArr (map JObj (compact_records result)))
      else and_then (table_lines_rt rt result) (\<lambda>lines. Inr (join [CHR 0x0A] lines)))"

section \<open>The API gateway\<close>

subsection \<open>Decoded JSON as Python sees it\<close>

text \<open>
  The operations a decoder applies to a decoded payload, with the exception each raises on
  a value of the wrong shape: \<open>v[key]\<close>, \<open>v[i]\<close>, \<open>v.get(key)\<close>, \<open>len(v)\<close>, iteration
  and truth. A dictionary decoded from JSON has string keys only, so an integer subscript
  on it is a \<open>KeyError\<close>.
\<close>

definition py_subscript_key :: "json \<Rightarrow> string \<Rightarrow> json result" where
  "py_subscript_key v key =
     (case v of
        JObj kvs \<Rightarrow> (case map_of kvs key of None \<Rightarrow> Inl (KeyError key) | Some x \<Rightarrow> Inr x)
      | _ \<Rightarrow> Inl TypeError)"

definition py_subscript_idx :: "json \<Rightarrow> nat \<Rightarrow> json result" where
  "py_subscript_idx v i =
     (case v of
        JArr xs \<Rightarrow> py_getitem xs i
      | JStr s \<Rightarrow> (if i < length s then Inr (JStr [s ! i]) else Inl IndexError)
      | JObj kvs \<Rightarrow> Inl (KeyError (str_nat i))
      | _ \<Rightarrow> Inl TypeError)"

definition py_get :: "json \<Rightarrow> string \<Rightarrow> json \<Rightarrow> json result" where
  "py_get v key dflt =
     (case v of
        JObj kvs \<Rightarrow> Inr (case map_of kvs key of None \<Rightarrow> dflt | Some x \<Rightarrow> x)
      | _ \<Rightarrow> Inl AttributeError)"

definition py_len :: "json \<Rightarrow> nat result" where
  "py_len v =
     (case v of
        JArr xs \<Rightarrow> Inr (length xs)
      | JStr s \<Rightarrow> Inr (length s)
      | JObj kvs \<Rightarrow> Inr (length kvs)
      | _ \<Rightarrow> Inl TypeError)"

definition py_iter :: "json \<Rightarrow> json list result" where
  "py_iter v =
     (case v of
        JArr xs \<Rightarrow> Inr xs
      | JStr s \<Rightarrow> Inr (map (\<lambda>c. JStr [c]) s)
      | JObj kvs \<Rightarrow> Inr (map (\<lambda>kv. JStr (fst kv)) kvs)
      | _ \<Rightarrow> Inl TypeError)"

definition truthy :: "json \<Rightarrow> bool" where
  "truthy v =
     (case v of
        JNull \<Rightarrow> False
      | JBool b \<Rightarrow> b
      | JInt i \<Rightarrow> i \<noteq> 0
      | JStr s \<Rightarrow> s \<noteq> []
      | JArr xs \<Rightarrow> xs \<noteq> []
      | JObj kvs \<Rightarrow> kvs \<noteq> [])"

text \<open>
  The records below carry the types their dataclass fields are annotated with. Python
  stores whatever the payload holds; the model stops with \<open>Untyped\<close> where a decoded value
  does not have the annotated type.
\<close>

definition as_str :: "json \<Rightarrow> string result" where
  "as_str v = (case v of JStr s \<Rightarrow> Inr s | _ \<Rightarrow> Inl Untyped)"

definition as_optional_str :: "json \<Rightarrow> string option result" where
  "as_optional_str v = (case v of JNull \<Rightarrow> Inr None | JStr s \<Rightarrow> Inr (Some s) | _ \<Rightarrow> Inl Untyped)"

definition as_optional_bool :: "json \<Rightarrow> bool option result" where
  "as_optional_bool v = (case v of JNull \<Rightarrow> Inr None | JBool b \<Rightarrow> Inr (Some b) | _ \<Rightarrow> Inl Untyped)"

definition as_optional_int :: "json \<Rightarrow> int option result" where
  "as_optional_int v = (case v of JNull \<Rightarrow> Inr None | JInt i \<Rightarrow> Inr (Some i) | _ \<Rightarrow> Inl Untyped)"

definition as_list :: "json \<Rightarrow> json list result" where
  "as_list v = (case v of JArr xs \<Rightarrow> Inr xs | _ \<Rightarrow> Inl Untyped)"

subsection \<open>Credentials, requests and responses\<close>

text \<open>
  \<open>os.environ\<close> is a map from names to values. A request is what \<open>requests.get\<close> or
  \<open>requests.post\<close> is called with; the transport answers with a response or raises. Of a
  response the client reads \<open>status_code\<close>, \<open>text\<close> (the field \<open>body_text\<close>), \<open>ok\<close> and
  \<open>json()\<close>: \<open>ok\<close> is false for the status codes from 400 to 599, and \<open>json()\<close> gives the
  decoded body or raises when the body is not JSON.
\<close>

type_synonym environ = "string \<rightharpoonup> string"

record request =
  http_method :: string
  url :: string
  headers :: "(string \<times> string) list"
  json_body :: "json option"

record response =
  status_code :: int
  body_text :: string
  decoded :: "json option"

type_synonym transport = "request \<Rightarrow> response result"

definition ok :: "response \<Rightarrow> bool" where
  "ok r = (\<not> (400 \<le> status_code r \<and> status_code r < 600))"

definition response_json :: "response \<Rightarrow> json result" where
  "response_json r = (case decoded r of None \<Rightarrow> Inl JSONDecodeError | Some v \<Rightarrow> Inr v)"

definition BASE_URL :: string where
  "BASE_URL = ''https://cloud.cdata.com/api''"

text \<open>\<open>s.encode()\<close> and \<open>base64.b64encode\<close>.\<close>

definition utf8_encode :: "string \<Rightarrow> nat list" where
  "utf8_encode s =
     concat (map (\<lambda>c. if (of_char c :: nat) < 128 then [of_char c]
                       else [192 + of_char c div 64, 128 + of_char c mod 64]) s)"

definition b64_char :: "nat \<Rightarrow> char" where
  "b64_char n =
     (if n < 26 then char_of (65 + n)
      else if n < 52 then char_of (71 + n)
      else if n < 62 then char_of (n - 4)
      else if n = 62 then CHR ''+'' else CHR ''/'')"

fun b64encode :: "nat list \<Rightarrow> string" where
  "b64encode [] = []"
| "b64encode [a] = [b64_char (a div 4), b64_char (a mod 4 * 16), CHR ''='', CHR ''='']"
| "b64encode [a, b] =
     [b64_char (a div 4), b64_char (a mod 4 * 16 + b div 16), b64_char (b mod 16 * 4), CHR ''='']"
| "b64encode (a # b # c # rest) =
     [b64_char (a div 4), b64_char (a mod 4 * 16 + b div 16),
      b64_char (b mod 16 * 4 + c div 64), b64_char (c mod 64)] @ b64encode rest"

definition get_auth_credentials :: "environ \<Rightarrow> (string \<times> string) result" where
  "get_auth_credentials env =
     (let email = env ''CONNECT_AI_EMAIL''; token = env ''CONNECT_AI_TOKEN'' in
      if email = None \<or> email = Some [] \<or> token = None \<or> token = Some []
      then Inl (ValueError
             ''CONNECT_AI_EMAIL and CONNECT_AI_TOKEN environment variables must be set'')
      else Inr (the email, the token))"

text \<open>
  An operation returns its result together with the requests it has sent, in order, so
  that a failure before any request shows as the empty list.
\<close>

type_synonym 'a io = "'a result \<times> request list"

definition send :: "transport \<Rightarrow> request \<Rightarrow> json io" where
  "send net req =
     (case net req of
        Inl e \<Rightarrow> (Inl e, [req])
      | Inr response \<Rightarrow>
          (if \<not> ok response
           then Inl (Exception (''Connect AI API error ('' @ str_int (status_code response)
                                @ ''): '' @ body_text response))
           else response_json response,
           [req]))"

definition make_request :: "environ \<Rightarrow> transport \<Rightarrow> string \<Rightarrow> string \<Rightarrow> json option \<Rightarrow> json io" where
  "make_request env net endpoint meth body =
     (case get_auth_credentials env of
        Inl e \<Rightarrow> (Inl e, [])
      | Inr (email, token) \<Rightarrow>
          (let credentials = b64encode (utf8_encode (email @ '':'' @ token));
               hdrs = [(''Authorization'', ''Basic '' @ credentials),
                       (''Content-Type'', ''application/json'')];
               target = BASE_URL @ endpoint
           in if meth = ''GET''
              then send net \<lparr>http_method = ''GET'', url = target, headers = hdrs, json_body = None\<rparr>
              else if meth = ''POST''
              then send net \<lparr>http_method = ''POST'', url = target, headers = hdrs, json_body = body\<rparr>
              else (Inl (ValueError (''Unsupported HTTP method: '' @ meth)), [])))"

definition decode_with :: "'a io \<Rightarrow> ('a \<Rightarrow> 'b result) \<Rightarrow> 'b io" where
  "decode_with m f = (and_then (fst m) f, snd m)"

subsection \<open>The operations\<close>

text \<open>\<open>response['results'][0]['rows']\<close>, iterated.\<close>

definition result_rows :: "json \<Rightarrow> json list result" where
  "result_rows response =
     and_then (py_subscript_key response ''results'') (\<lambda>results.
     and_then (py_subscript_idx results 0) (\<lambda>first.
     and_then (py_subscript_key first ''rows'') py_iter))"

definition get_catalogs :: "environ \<Rightarrow> transport \<Rightarrow> Catalog list io" where
  "get_catalogs env net =
     decode_with (make_request env net ''/catalogs'' ''GET'' None) (\<lambda>response.
       and_then (result_rows response)
         (mapM (\<lambda>row. and_then (and_then (py_subscript_idx row 0) as_str) (\<lambda>c.
            Inr \<lparr>catalogName = c\<rparr>))))"

text \<open>An optional filter counts when it is given and not the empty string.\<close>

definition param :: "string \<Rightarrow> string option \<Rightarrow> string list" where
  "param name v =
     (case v of None \<Rightarrow> [] | Some s \<Rightarrow> if s = [] then [] else [name @ ''='' @ s])"

definition with_query :: "string \<Rightarrow> string list \<Rightarrow> string" where
  "with_query path params =
     (let query_string = join ''&'' params
      in path @ (if query_string \<noteq> [] then ''?'' @ query_string else []))"

definition get_schemas :: "environ \<Rightarrow> transport \<Rightarrow> string option \<Rightarrow> string option \<Rightarrow> Schema list io" where
  "get_schemas env net catalog_name schema_name =
     decode_with
       (make_request env net
          (with_query ''/schemas''
             (param ''catalogName'' catalog_name @ param ''schemaName'' schema_name))
          ''GET'' None)
       (\<lambda>response.
         and_then (result_rows response)
           (mapM (\<lambda>row. and_then (and_then (py_subscript_idx row 0) as_str) (\<lambda>c.
                         and_then (and_then (py_subscript_idx row 1) as_str) (\<lambda>s.
              Inr \<lparr>TABLE_CATALOG = c, TABLE_SCHEMA = s\<rparr>)))))"

definition get_tables ::
  "environ \<Rightarrow> transport \<Rightarrow> string option \<Rightarrow> string option \<Rightarrow> string option \<Rightarrow> string option
   \<Rightarrow> Table list io" where
  "get_tables env net catalog_name schema_name table_name table_type =
     decode_with
       (make_request env net
          (with_query ''/tables''
             (param ''catalogName'' catalog_name @ param ''schemaName'' schema_name
              @ param ''tableName'' table_name @ param ''tableType'' table_type))
          ''GET'' None)
       (\<lambda>response.
         and_then (result_rows response)
           (mapM (\<lambda>row. and_then (and_then (py_subscript_idx row 0) as_str) (\<lambda>c.
                         and_then (and_then (py_subscript_idx row 1) as_str) (\<lambda>s.
                         and_then (and_then (py_subscript_idx row 2) as_str) (\<lambda>n.
                         and_then (and_then (py_subscript_idx row 3) as_str) (\<lambda>t.
                         and_then (py_len row) (\<lambda>len.
                         and_then (if len > 4
                                   then and_then (py_subscript_idx row 4) as_optional_str
                                   else Inr None) (\<lambda>r.
              Inr \<lparr>T_TABLE_CATALOG = c, T_TABLE_SCHEMA = s, TABLE_NAME = n,
                   TABLE_TYPE = t, REMARKS = r\<rparr>)))))))))"

definition decode_column :: "json \<Rightarrow> ColumnSchema result" where
  "decode_column col =
     and_then (and_then (py_subscript_key col ''columnName'') as_str) (\<lambda>n.
     and_then (and_then (py_subscript_key col ''dataTypeName'') as_str) (\<lambda>t.
     and_then (and_then (py_get col ''nullable'' JNull) as_optional_bool) (\<lambda>nl.
     Inr \<lparr>columnName = n, dataTypeName = t, nullable = nl\<rparr>)))"

definition decode_query_result :: "json \<Rightarrow> QueryResult result" where
  "decode_query_result response =
     and_then (py_get response ''results'' JNull) (\<lambda>results.
     and_then (if \<not> truthy results then Inr True
               else and_then (py_len results) (\<lambda>n. Inr (n = 0))) (\<lambda>none.
     if none
     then Inl (Exception (''No results returned from query: '' @ json_dumps None response))
     else
     and_then (py_subscript_idx results 0) (\<lambda>result.
     and_then (py_get result ''schema'' JNull) (\<lambda>sch.
     and_then (if truthy sch then py_iter sch else Inr []) (\<lambda>cols.
     and_then (mapM decode_column cols) (\<lambda>columns.
     and_then (py_get result ''rows'' (JArr [])) (\<lambda>rws.
     and_then (and_then (as_list rws) (mapM as_list)) (\<lambda>row_list.
     and_then (and_then (py_get result ''affectedRows'' JNull) as_optional_int) (\<lambda>affected.
     Inr \<lparr>schema = columns, rows = row_list, affectedRows = affected\<rparr>)))))))))"

definition execute_query ::
  "environ \<Rightarrow> transport \<Rightarrow> string \<Rightarrow> string option \<Rightarrow> bool \<Rightarrow> (string \<times> json) list option
   \<Rightarrow> QueryResult io" where
  "execute_query env net query default_schema schema_only parameters =
     (let body = JObj
            [(''query'', JStr query),
             (''defaultSchema'', case default_schema of None \<Rightarrow> JNull | Some s \<Rightarrow> JStr s),
             (''schemaOnly'', JBool schema_only),
             (''parameters'', JObj (case parameters of None \<Rightarrow> [] | Some ps \<Rightarrow> ps))]
      in decode_with (make_request env net ''/query'' ''POST'' (Some body)) decode_query_result)"

definition get_table_columns :: "environ \<Rightarrow> transport \<Rightarrow> string \<Rightarrow> string \<Rightarrow> string \<Rightarrow> QueryResult io" where
  "get_table_columns env net catalog_name schema_name table_name =
     execute_query env net
       (''SELECT * FROM '' @ catalog_name @ ''.'' @ schema_name @ ''.'' @ table_name)
       None True None"

definition execute_query_compact :: "environ \<Rightarrow> transport \<Rightarrow> string \<Rightarrow> (string \<times> json) list list io" where
  "execute_query_compact env net query =
     decode_with (execute_query env net query None False None)
       (\<lambda>result. Inr (compact_records result))"

text \<open>
  The specification names the failures of the gateway \<open>ConfigurationError\<close> and
  \<open>RequestError\<close>. In the code the first is the \<open>ValueError\<close> of
  \<open>get_auth_credentials\<close> and the second the \<open>Exception\<close> of \<open>make_request\<close>, whose message
  holds the status code and the body of the response.
\<close>

definition ConfigurationError :: py_error where
  "ConfigurationError =
     ValueError ''CONNECT_AI_EMAIL and CONNECT_AI_TOKEN environment variables must be set''"

definition RequestError :: "response \<Rightarrow> py_error" where
  "RequestError r =
     Exception (''Connect AI API error ('' @ str_int (status_code r) @ ''): '' @ body_text r)"

text \<open>
  An environment with both credentials, one without the e-mail address, and the response
  of a server that fails.
\<close>

definition sample_environ :: environ where
  "sample_environ = [''CONNECT_AI_EMAIL'' \<mapsto> ''a@b.c'', ''CONNECT_AI_TOKEN'' \<mapsto> ''tok'']"

definition token_only_environ :: environ where
  "token_only_environ = [''CONNECT_AI_TOKEN'' \<mapsto> ''tok'']"

definition server_error :: response where
  "server_error = \<lparr>status_code = 500, body_text = ''Internal Server Error'', decoded = None\<rparr>"

section \<open>The formatter as the specification words it\<close>

text \<open>
  The specification describes tabular mode without the intermediate failures of the code:
  the text of a cell is the stringified value, or the empty string where the row has no
  value at that index; the width of column \<open>i\<close> is the maximum of the header's length and
  of the lengths of the cell texts of all rows; a line joins the left-justified cells with
  \<open>" | "\<close>. These definitions follow those words; the theorems below compare them with
  the functions translated from the code.
\<close>

definition cell_text :: "json list \<Rightarrow> nat \<Rightarrow> string" where
  "cell_text row i = (if i < length row then py_str (row ! i) else [])"

definition spec_column_width :: "QueryResult \<Rightarrow> nat \<Rightarrow> nat" where
  "spec_column_width result i =
     max (length (columnName (schema result ! i)))
         (Max (set (map (\<lambda>row. length (cell_text row i)) (rows result))))"

definition spec_widths :: "QueryResult \<Rightarrow> nat list" where
  "spec_widths result = map (spec_column_width result) [0 ..< length (schema result)]"

definition spec_header_line :: "QueryResult \<Rightarrow> string" where
  "spec_header_line result =
     join '' | '' (map (\<lambda>i. ljust (columnName (schema result ! i)) (spec_widths result ! i))
                     [0 ..< length (schema result)])"

definition spec_row_line :: "QueryResult \<Rightarrow> json list \<Rightarrow> string" where
  "spec_row_line result row =
     join '' | '' (map (\<lambda>i. ljust (cell_text row i) (spec_widths result ! i))
                     [0 ..< length (schema result)])"

text \<open>The same query result with every row cut down to the length of the schema.\<close>

definition truncate_rows :: "QueryResult \<Rightarrow> QueryResult" where
  "truncate_rows result = result\<lparr>rows := map (take (length (schema result))) (rows result)\<rparr>"

text \<open>A query result with a row shorter and a row longer than its schema.\<close>

definition sample_result :: QueryResult where
  "sample_result = \<lparr>schema = [\<lparr>columnName = ''Status'', dataTypeName = ''VARCHAR'', nullable = None\<rparr>,
                   \<lparr>columnName = ''Count'', dataTypeName = ''INT'', nullable = None\<rparr>],
          rows = [[JStr ''X''], [JStr ''Closed'', JInt 12, JNull]], affectedRows = None\<rparr>"

text \<open>
  The lines of a text as \<open>s.split('\n')\<close> gives them, and the query results whose column
  names and cell texts hold no newline character.
\<close>

fun split_lines :: "string \<Rightarrow> string list" where
  "split_lines [] = [[]]"
| "split_lines (c # cs) =
     (if c = CHR 0x0A then [] # split_lines cs
      else (case split_lines cs of [] \<Rightarrow> [[c]] | l # ls \<Rightarrow> (c # l) # ls))"

definition no_newlines :: "QueryResult \<Rightarrow> bool" where
  "no_newlines result =
     (list_all (\<lambda>col. CHR 0x0A \<notin> set (columnName col)) (schema result)
      \<and> list_all (\<lambda>row. list_all (\<lambda>i. CHR 0x0A \<notin> set (cell_text row i))
                              [0 ..< length (schema result)])
           (rows result))"

text \<open>A query result with a cell whose text has two lines.\<close>

definition multiline_cell_result :: QueryResult where
  "multiline_cell_result =
     \<lparr>schema = [\<lparr>columnName = ''note'', dataTypeName = ''VARCHAR'', nullable = None\<rparr>],
      rows = [[JStr ''ab\<newline>c''], [JStr ''x'']], affectedRows = None\<rparr>"

text \<open>
  The values that the interpreter renders with \<open>d\<close> levels of nesting left: every integer
  has at most 4300 digits and the lists and dictionaries nest at most \<open>d\<close> deep. A query
  result is measured on the values within the width of its schema, the only ones the
  formatter renders.
\<close>

fun renderable :: "nat \<Rightarrow> json \<Rightarrow> bool" where
  "renderable d (JInt i) = (int_digits i \<le> max_str_digits)"
| "renderable 0 (JArr xs) = False"
| "renderable (Suc d) (JArr xs) = list_all (renderable d) xs"
| "renderable 0 (JObj kvs) = False"
| "renderable (Suc d) (JObj kvs) = list_all (\<lambda>kv. renderable d (snd kv)) kvs"
| "renderable d v = True"

definition values_renderable :: "nat \<Rightarrow> QueryResult \<Rightarrow> bool" where
  "values_renderable d result =
     list_all (\<lambda>row. list_all (renderable d) (take (length (schema result)) row)) (rows result)"

text \<open>
  An integer of 4301 digits in a query result, an interpreter with the usual recursion
  limit, and the response of a server that answers \<open>304 Not Modified\<close> with an empty
  body.
\<close>

definition huge_int :: int where
  "huge_int = 10 ^ 4300"

definition huge_int_result :: QueryResult where
  "huge_int_result =
     \<lparr>schema = [\<lparr>columnName = ''n'', dataTypeName = ''DECIMAL'', nullable = None\<rparr>],
      rows = [[JInt huge_int]], affectedRows = None\<rparr>"

definition default_runtime :: runtime where
  "default_runtime = \<lparr>repr_depth = 1000, dumps_depth = 1000\<rparr>"

definition not_modified :: response where
  "not_modified = \<lparr>status_code = 304, body_text = [], decoded = None\<rparr>"

section \<open>Auxiliary facts\<close>

lemma mapM_pure: "(\<And>x. x \<in> set xs \<Longrightarrow> f x = Inr (g x)) \<Longrightarrow> mapM f xs = Inr (map g xs)"
  by (induction xs) auto

lemma cell_width: "and_then (cell row i) (\<lambda>v. Inr (length (py_str v))) = Inr (length (cell_text row i))"
  by (simp add: cell_def cell_text_def py_getitem_def and_then_def py_str_def)

lemma py_max_Max: "xs \<noteq> [] \<Longrightarrow> py_max xs = Inr (Max (set xs))"
  by (cases xs) (simp_all add: Max.set_eq_fold [symmetric])

lemma max_data_width_pure:
  "rws \<noteq> [] \<Longrightarrow> max_data_width rws i = Inr (Max (set (map (\<lambda>row. length (cell_text row i)) rws)))"
proof -
  assume ne: "rws \<noteq> []"
  have "mapM (\<lambda>row. and_then (cell row i) (\<lambda>v. Inr (length (py_str v)))) rws
      = Inr (map (\<lambda>row. length (cell_text row i)) rws)"
    by (rule mapM_pure) (rule cell_width)
  with ne show ?thesis
    by (simp add: max_data_width_def and_then_def py_max_Max del: set_map)
qed

lemma map_fst_enumerate:
  "map (\<lambda>ih. f (fst ih)) (List.enumerate 0 xs) = map f [0 ..< length xs]"
proof -
  have "map f [0 ..< length xs] = map f (map fst (List.enumerate 0 xs))"
    by simp
  also have "\<dots> = map (\<lambda>ih. f (fst ih)) (List.enumerate 0 xs)"
    by (simp only: map_map comp_def)
  finally show ?thesis by simp
qed

lemma column_widths_pure:
  assumes "rows result \<noteq> []"
  shows "column_widths result = Inr (map (spec_column_width result) [0 ..< length (schema result)])"
proof -
  have "mapM (\<lambda>ih. and_then (max_data_width (rows result) (fst ih))
                   (\<lambda>m. Inr (max (length (snd ih)) m)))
          (List.enumerate 0 (headers_of result))
        = Inr (map (\<lambda>ih. spec_column_width result (fst ih)) (List.enumerate 0 (headers_of result)))"
  proof (rule mapM_pure)
    fix x assume "x \<in> set (List.enumerate 0 (headers_of result))"
    then have "fst x < length (schema result)" and "snd x = columnName (schema result ! fst x)"
      by (auto simp: enumerate_eq_zip headers_of_def in_set_zip)
    then show "and_then (max_data_width (rows result) (fst x)) (\<lambda>m. Inr (max (length (snd x)) m))
        = Inr (spec_column_width result (fst x))"
      using assms by (simp add: max_data_width_pure and_then_def spec_column_width_def)
  qed
  moreover have "map (\<lambda>ih. spec_column_width result (fst ih)) (List.enumerate 0 (headers_of result))
      = map (spec_column_width result) [0 ..< length (schema result)]"
    using map_fst_enumerate [of "spec_column_width result" "headers_of result"]
    by (simp add: headers_of_def)
  ultimately show ?thesis by (simp add: column_widths_def)
qed

lemma map_enumerate_nth:
  "map g (List.enumerate 0 xs) = map (\<lambda>i. g (i, xs ! i)) [0 ..< length xs]"
  by (rule nth_equalityI) (simp_all add: nth_enumerate_eq)

lemma header_row_pure:
  assumes "length ws = length hdrs"
  shows "header_row hdrs ws
     = Inr (join '' | '' (map (\<lambda>i. ljust (hdrs ! i) (ws ! i)) [0 ..< length hdrs]))"
proof -
  have "mapM (\<lambda>ih. and_then (py_getitem ws (fst ih)) (\<lambda>w. Inr (ljust (snd ih) w)))
          (List.enumerate 0 hdrs)
      = Inr (map (\<lambda>ih. ljust (snd ih) (ws ! fst ih)) (List.enumerate 0 hdrs))"
  proof (rule mapM_pure)
    fix x assume "x \<in> set (List.enumerate 0 hdrs)"
    then have "fst x < length ws"
      using assms by (auto simp: enumerate_eq_zip in_set_zip)
    then show "and_then (py_getitem ws (fst x)) (\<lambda>w. Inr (ljust (snd x) w))
        = Inr (ljust (snd x) (ws ! fst x))"
      by (simp add: py_getitem_def and_then_def)
  qed
  then show ?thesis
    by (simp add: header_row_def and_then_def map_enumerate_nth)
qed

lemma formatted_row_pure:
  assumes "length ws = length hdrs"
  shows "formatted_row hdrs ws row
     = Inr (join '' | '' (map (\<lambda>i. ljust (cell_text row i) (ws ! i)) [0 ..< length hdrs]))"
proof -
  have "mapM (\<lambda>i. and_then (cell row i) (\<lambda>v.
                and_then (py_getitem ws i) (\<lambda>w. Inr (ljust (py_str v) w))))
          [0 ..< length hdrs]
      = Inr (map (\<lambda>i. ljust (cell_text row i) (ws ! i)) [0 ..< length hdrs])"
  proof (rule mapM_pure)
    fix i assume "i \<in> set [0 ..< length hdrs]"
    then have "i < length ws" using assms by simp
    then show "and_then (cell row i) (\<lambda>v.
                and_then (py_getitem ws i) (\<lambda>w. Inr (ljust (py_str v) w)))
        = Inr (ljust (cell_text row i) (ws ! i))"
      by (simp add: cell_def cell_text_def py_getitem_def and_then_def py_str_def)
  qed
  then show ?thesis
    by (simp add: formatted_row_def and_then_def)
qed

lemma length_headers_of: "length (headers_of result) = length (schema result)"
  by (simp add: headers_of_def)

lemma length_spec_widths: "length (spec_widths result) = length (schema result)"
  by (simp add: spec_widths_def)

lemma table_lines_pure:
  assumes "rows result \<noteq> []"
  shows "table_lines result
     = Inr ([spec_header_line result, separator (spec_widths result)]
            @ map (spec_row_line result) (rows result))"
proof -
  have len: "length (spec_widths result) = length (headers_of result)"
    by (simp add: spec_widths_def headers_of_def)
  have cw: "column_widths result = Inr (spec_widths result)"
    using assms by (simp add: column_widths_pure spec_widths_def)
  have hr: "header_row (headers_of result) (spec_widths result) = Inr (spec_header_line result)"
  proof -
    have "map (\<lambda>i. ljust (headers_of result ! i) (spec_widths result ! i))
            [0 ..< length (headers_of result)]
        = map (\<lambda>i. ljust (columnName (schema result ! i)) (spec_widths result ! i))
            [0 ..< length (schema result)]"
      by (rule nth_equalityI) (simp_all add: headers_of_def)
    then show ?thesis
      by (simp add: header_row_pure [OF len] spec_header_line_def)
  qed
  have dr: "mapM (formatted_row (headers_of result) (spec_widths result)) (rows result)
      = Inr (map (spec_row_line result) (rows result))"
    by (rule mapM_pure) (simp add: formatted_row_pure [OF len] spec_row_line_def length_headers_of)
  show ?thesis
    by (simp add: table_lines_def cw hr dr and_then_def)
qed

lemma length_join:
  "length (join sep xs) = sum_list (map length xs) + length sep * (length xs - 1)"
  by (induction sep xs rule: join.induct) simp_all

lemma length_ljust: "length (ljust s w) = max (length s) w"
  by (simp add: ljust_def)

lemma header_le_width:
  "i < length (schema result) \<Longrightarrow>
   length (columnName (schema result ! i)) \<le> spec_widths result ! i"
  by (simp add: spec_widths_def spec_column_width_def)

lemma cell_le_width:
  "i < length (schema result) \<Longrightarrow> row \<in> set (rows result) \<Longrightarrow>
   length (cell_text row i) \<le> spec_widths result ! i"
  by (simp add: spec_widths_def spec_column_width_def max.coboundedI2)

lemma length_spec_header_line:
  "length (spec_header_line result)
     = sum_list (spec_widths result) + 3 * (length (schema result) - 1)"
proof -
  have "map (\<lambda>i. length (ljust (columnName (schema result ! i)) (spec_widths result ! i)))
          [0 ..< length (schema result)]
      = map (\<lambda>i. spec_widths result ! i) [0 ..< length (schema result)]"
    by (rule map_cong [OF refl]) (simp add: length_ljust header_le_width max_absorb2)
  also have "\<dots> = spec_widths result"
    using map_nth [of "spec_widths result"] by (simp add: length_spec_widths)
  finally show ?thesis
    by (simp add: spec_header_line_def length_join comp_def)
qed

lemma length_spec_row_line:
  assumes "row \<in> set (rows result)"
  shows "length (spec_row_line result row)
     = sum_list (spec_widths result) + 3 * (length (schema result) - 1)"
proof -
  have "map (\<lambda>i. length (ljust (cell_text row i) (spec_widths result ! i)))
          [0 ..< length (schema result)]
      = map (\<lambda>i. spec_widths result ! i) [0 ..< length (schema result)]"
    using assms by (intro map_cong [OF refl]) (simp add: length_ljust cell_le_width max_absorb2)
  also have "\<dots> = spec_widths result"
    using map_nth [of "spec_widths result"] by (simp add: length_spec_widths)
  finally show ?thesis
    by (simp add: spec_row_line_def length_join comp_def)
qed

lemma zip_take_right: "zip xs (take (length xs) ys) = zip xs ys"
proof (induction xs arbitrary: ys)
  case Nil
  show ?case by simp
next
  case (Cons x xs)
  show ?case by (cases ys) (simp_all add: Cons.IH)
qed

lemma cell_text_take: "i < n \<Longrightarrow> cell_text (take n row) i = cell_text row i"
  by (simp add: cell_text_def)

lemma spec_column_width_truncate:
  assumes "i < length (schema result)"
  shows "spec_column_width (truncate_rows result) i = spec_column_width result i"
proof -
  have "map (\<lambda>row. length (cell_text row i)) (map (take (length (schema result))) (rows result))
      = map (\<lambda>row. length (cell_text row i)) (rows result)"
    using assms by (simp add: cell_text_take comp_def)
  then show ?thesis
    by (simp add: spec_column_width_def truncate_rows_def del: set_map map_map)
qed

lemma spec_widths_truncate: "spec_widths (truncate_rows result) = spec_widths result"
proof -
  have "map (spec_column_width (truncate_rows result)) [0 ..< length (schema result)]
      = map (spec_column_width result) [0 ..< length (schema result)]"
    by (rule map_cong [OF refl]) (simp add: spec_column_width_truncate)
  then show ?thesis by (simp add: spec_widths_def truncate_rows_def)
qed

lemma spec_header_line_truncate: "spec_header_line (truncate_rows result) = spec_header_line result"
proof -
  have "spec_header_line (truncate_rows result)
      = join '' | '' (map (\<lambda>i. ljust (columnName (schema result ! i)) (spec_widths (truncate_rows result) ! i))
                     [0 ..< length (schema result)])"
    by (simp add: spec_header_line_def) (simp add: truncate_rows_def)
  then show ?thesis by (simp add: spec_widths_truncate spec_header_line_def)
qed

lemma spec_row_line_truncate:
  "spec_row_line (truncate_rows result) (take (length (schema result)) row) = spec_row_line result row"
proof -
  have m: "map (\<lambda>i. ljust (cell_text (take (length (schema result)) row) i) (spec_widths result ! i))
          [0 ..< length (schema result)]
      = map (\<lambda>i. ljust (cell_text row i) (spec_widths result ! i)) [0 ..< length (schema result)]"
    by (rule map_cong [OF refl]) (simp add: cell_text_take)
  have len: "length (schema (truncate_rows result)) = length (schema result)"
    by (simp add: truncate_rows_def)
  show ?thesis
    by (simp only: spec_row_line_def spec_widths_truncate len m)
qed

lemma compact_records_truncate: "compact_records (truncate_rows result) = compact_records result"
proof -
  have h: "headers_of (truncate_rows result) = headers_of result"
    by (simp add: headers_of_def truncate_rows_def)
  have z: "zip (headers_of result) (take (length (schema result)) row)
      = zip (headers_of result) row" for row
    using zip_take_right [of "headers_of result" row] by (simp add: length_headers_of)
  have "map (\<lambda>row. py_dict (zip (headers_of result) row))
          (map (take (length (schema result))) (rows result))
      = map (\<lambda>row. py_dict (zip (headers_of result) row)) (rows result)"
    by (simp add: z)
  moreover have "rows (truncate_rows result) = map (take (length (schema result))) (rows result)"
    by (simp add: truncate_rows_def)
  ultimately show ?thesis
    by (simp only: compact_records_def h)
qed

lemma table_lines_truncate: "table_lines (truncate_rows result) = table_lines result"
proof (cases "rows result = []")
  case True
  then have "truncate_rows result = result" by (simp add: truncate_rows_def)
  then show ?thesis by simp
next
  case False
  then have ne: "rows (truncate_rows result) \<noteq> []" by (simp add: truncate_rows_def)
  have "map (spec_row_line (truncate_rows result)) (rows (truncate_rows result))
      = map (spec_row_line result) (rows result)"
    by (simp add: truncate_rows_def comp_def)
       (simp add: spec_row_line_truncate flip: truncate_rows_def)
  with False ne show ?thesis
    by (simp add: table_lines_pure spec_header_line_truncate spec_widths_truncate)
qed

lemma keys_foldl_update:
  "fst ` set (foldl (\<lambda>d kv. AList.update (fst kv) (snd kv) d) d ps) = fst ` set d \<union> fst ` set ps"
  by (induction ps arbitrary: d) (auto simp: dom_update)

lemma distinct_foldl_update:
  "distinct (map fst d) \<Longrightarrow> distinct (map fst (foldl (\<lambda>d kv. AList.update (fst kv) (snd kv) d) d ps))"
  by (induction ps arbitrary: d) (simp_all add: distinct_update)

lemma update_fresh: "k \<notin> fst ` set d \<Longrightarrow> AList.update k v d = d @ [(k, v)]"
  by (induction d) auto

lemma foldl_update_distinct:
  "distinct (map fst (d @ ps)) \<Longrightarrow> foldl (\<lambda>d kv. AList.update (fst kv) (snd kv) d) d ps = d @ ps"
proof (induction ps arbitrary: d)
  case Nil
  show ?case by simp
next
  case (Cons p ps)
  then have fresh: "fst p \<notin> fst ` set d" by auto
  have "distinct (map fst ((d @ [p]) @ ps))" using Cons.prems by simp
  then have "foldl (\<lambda>d kv. AList.update (fst kv) (snd kv) d) (d @ [p]) ps = (d @ [p]) @ ps"
    by (rule Cons.IH)
  then show ?case using fresh by (simp add: update_fresh)
qed

lemma keys_py_dict: "set (map fst (py_dict ps)) = set (map fst ps)"
  using keys_foldl_update [of "[]" ps] by (simp add: py_dict_def)

lemma distinct_py_dict: "distinct (map fst (py_dict ps))"
  using distinct_foldl_update [of "[]" ps] by (simp add: py_dict_def)

lemma py_dict_distinct: "distinct (map fst ps) \<Longrightarrow> py_dict ps = ps"
  using foldl_update_distinct [of "[]" ps] by (simp add: py_dict_def)

lemma map_fst_zip_headers: "map fst (zip hs row) = take (length row) hs"
proof (cases "length row \<le> length hs")
  case True
  then show ?thesis by (simp add: map_fst_zip_take min_def)
next
  case False
  then show ?thesis by (simp add: map_fst_zip_take min_def)
qed

lemma decode_with_error: "decode_with (Inl e, sent) f = (Inl e, sent)"
  by (simp add: decode_with_def and_then_def)

lemma credentials_absent:
  "env ''CONNECT_AI_EMAIL'' = None \<or> env ''CONNECT_AI_TOKEN'' = None \<Longrightarrow>
   get_auth_credentials env = Inl ConfigurationError"
  by (auto simp: get_auth_credentials_def ConfigurationError_def Let_def)

lemma make_request_no_credentials:
  "get_auth_credentials env = Inl e \<Longrightarrow> make_request env net endpoint meth body = (Inl e, [])"
  by (simp add: make_request_def)

lemma execute_query_no_credentials:
  "get_auth_credentials env = Inl e \<Longrightarrow> execute_query env net q ds so ps = (Inl e, [])"
  by (simp add: execute_query_def make_request_no_credentials decode_with_error)

lemma credentials_present:
  assumes "env ''CONNECT_AI_EMAIL'' = Some email" "email \<noteq> []"
      and "env ''CONNECT_AI_TOKEN'' = Some token" "token \<noteq> []"
  shows "get_auth_credentials env = Inr (email, token)"
  using assms by (simp add: get_auth_credentials_def Let_def)

lemma send_not_ok:
  assumes "net req = Inr r" "\<not> ok r"
  shows "send net req = (Inl (RequestError r), [req])"
  using assms by (simp add: send_def RequestError_def)

lemma make_request_not_ok:
  assumes c: "get_auth_credentials env = Inr (email, token)"
      and m: "meth = ''GET'' \<or> meth = ''POST''"
      and n: "\<And>req. net req = Inr (reply req)" and b: "\<And>req. \<not> ok (reply req)"
  shows "\<exists>req. make_request env net endpoint meth body = (Inl (RequestError (reply req)), [req])"
proof -
  have s: "send net req = (Inl (RequestError (reply req)), [req])" for req
    by (rule send_not_ok [OF n b])
  from m show ?thesis
    by (auto simp: make_request_def c Let_def s)
qed

lemma decode_with_not_ok:
  "\<exists>req. m = (Inl (RequestError (reply req)), [req]) \<Longrightarrow>
   \<exists>req. decode_with m f = (Inl (RequestError (reply req)), [req])"
  by (auto simp: decode_with_error)

lemma execute_query_compact_records:
  "execute_query env net query None False None = (Inr result, sent) \<Longrightarrow>
   execute_query_compact env net query = (Inr (compact_records result), sent)"
  by (simp add: execute_query_compact_def decode_with_def and_then_def)

lemma format_query_results_returns:
  "(\<exists>s. format_query_results result False = Inr s)
   \<and> (\<exists>s. format_query_results result True = Inr s)"
  by (cases "rows result = []")
     (simp_all add: format_query_results_def table_lines_pure and_then_def)

lemma split_lines_nonempty: "split_lines s \<noteq> []"
  by (induction s) (auto split: list.splits)

lemma split_lines_single: "CHR 0x0A \<notin> set x \<Longrightarrow> split_lines x = [x]"
  by (induction x) auto

lemma split_lines_append:
  "CHR 0x0A \<notin> set x \<Longrightarrow> split_lines (x @ CHR 0x0A # rest) = x # split_lines rest"
  by (induction x) auto

lemma split_lines_join:
  "ls \<noteq> [] \<Longrightarrow> list_all (\<lambda>l. CHR 0x0A \<notin> set l) ls \<Longrightarrow> split_lines (join [CHR 0x0A] ls) = ls"
  by (induction "[CHR 0x0A]" ls rule: join.induct)
     (simp_all add: split_lines_single split_lines_append)

lemma set_join: "set (join sep xs) \<subseteq> set sep \<union> \<Union> (set ` set xs)"
  by (induction sep xs rule: join.induct) auto

lemma set_ljust: "set (ljust s w) \<subseteq> insert CHR '' '' (set s)"
  by (auto simp: ljust_def)

lemma no_newline_join:
  assumes "CHR 0x0A \<notin> set sep" and "\<And>x. x \<in> set xs \<Longrightarrow> CHR 0x0A \<notin> set x"
  shows "CHR 0x0A \<notin> set (join sep xs)"
  using set_join [of sep xs] assms by auto

lemma no_newline_ljust: "CHR 0x0A \<notin> set s \<Longrightarrow> CHR 0x0A \<notin> set (ljust s w)"
  using set_ljust [of s w] by auto

lemma no_newline_separator: "CHR 0x0A \<notin> set (separator ws)"
  unfolding separator_def by (rule no_newline_join) auto

lemma no_newline_header_line:
  assumes "no_newlines result"
  shows "CHR 0x0A \<notin> set (spec_header_line result)"
  unfolding spec_header_line_def
proof (rule no_newline_join)
  show "CHR 0x0A \<notin> set '' | ''" by simp
next
  fix x
  assume "x \<in> set (map (\<lambda>i. ljust (columnName (schema result ! i)) (spec_widths result ! i))
                      [0 ..< length (schema result)])"
  then obtain i where i: "i < length (schema result)"
    and x: "x = ljust (columnName (schema result ! i)) (spec_widths result ! i)"
    by auto
  from assms i have "CHR 0x0A \<notin> set (columnName (schema result ! i))"
    by (simp add: no_newlines_def list_all_length)
  then show "CHR 0x0A \<notin> set x" unfolding x by (rule no_newline_ljust)
qed

lemma no_newline_row_line:
  assumes "no_newlines result" and "row \<in> set (rows result)"
  shows "CHR 0x0A \<notin> set (spec_row_line result row)"
  unfolding spec_row_line_def
proof (rule no_newline_join)
  show "CHR 0x0A \<notin> set '' | ''" by simp
next
  fix x
  assume "x \<in> set (map (\<lambda>i. ljust (cell_text row i) (spec_widths result ! i))
                      [0 ..< length (schema result)])"
  then obtain i where i: "i < length (schema result)"
    and x: "x = ljust (cell_text row i) (spec_widths result ! i)"
    by auto
  from assms i have "CHR 0x0A \<notin> set (cell_text row i)"
    by (simp add: no_newlines_def list_all_iff)
  then show "CHR 0x0A \<notin> set x" unfolding x by (rule no_newline_ljust)
qed

lemma py_repr_rt_renderable: "renderable d v \<Longrightarrow> py_repr_rt d v = Inr (py_repr v)"
proof (induction d v rule: py_repr_rt.induct)
  case (3 d xs)
  then have "mapM (py_repr_rt d) xs = Inr (map py_repr xs)"
    by (intro mapM_pure) (simp add: list_all_iff)
  then show ?case by (simp add: and_then_def)
next
  case (5 d kvs)
  then have "mapM (\<lambda>kv. and_then (py_repr_rt d (snd kv)) (\<lambda>r. Inr (repr_str (fst kv) @ '': '' @ r))) kvs
      = Inr (map (\<lambda>kv. repr_str (fst kv) @ '': '' @ py_repr (snd kv)) kvs)"
    by (intro mapM_pure) (simp add: list_all_iff and_then_def)
  then show ?case by (simp add: and_then_def)
qed (simp_all add: str_int_rt_def)

lemma json_encode_rt_renderable:
  "renderable d v \<Longrightarrow> json_encode_rt d indent level v = Inr (json_encode indent level v)"
proof (induction d indent level v rule: json_encode_rt.induct)
  case (3 d indent level xs)
  show ?case
  proof (cases "xs = []")
    case True
    then show ?thesis by simp
  next
    case False
    with 3 have "mapM (json_encode_rt d indent (Suc level)) xs
        = Inr (map (json_encode indent (Suc level)) xs)"
      by (intro mapM_pure) (simp add: list_all_iff)
    with False show ?thesis by (simp add: and_then_def)
  qed
next
  case (5 d indent level kvs)
  show ?case
  proof (cases "kvs = []")
    case True
    then show ?thesis by simp
  next
    case False
    with 5 have "mapM (\<lambda>kv. and_then (json_encode_rt d indent (Suc level) (snd kv))
                                 (\<lambda>r. Inr (json_string (fst kv) @ '': '' @ r))) kvs
        = Inr (map (\<lambda>kv. json_string (fst kv) @ '': '' @ json_encode indent (Suc level) (snd kv)) kvs)"
      by (intro mapM_pure) (simp add: list_all_iff and_then_def)
    with False show ?thesis by (simp add: and_then_def)
  qed
qed (simp_all add: str_int_rt_def)

lemma mapM_cong_set: "(\<And>x. x \<in> set xs \<Longrightarrow> f x = g x) \<Longrightarrow> mapM f xs = mapM g xs"
proof (induction xs)
  case Nil
  show ?case by simp
next
  case (Cons a xs)
  have fa: "f a = g a" by (rule Cons.prems) simp
  have ih: "mapM f xs = mapM g xs" by (rule Cons.IH) (simp add: Cons.prems)
  show ?case by (simp only: mapM.simps fa ih)
qed

lemma py_str_rt_renderable: "renderable d v \<Longrightarrow> py_str_rt d v = Inr (py_str v)"
  by (cases v) (simp_all add: py_str_rt_def py_str_def py_repr_rt_renderable del: py_repr_rt.simps)

lemma cell_renderable:
  assumes "values_renderable d result" "row \<in> set (rows result)" "i < length (schema result)"
  shows "and_then (cell row i) (\<lambda>v. and_then (py_str_rt d v) k)
       = and_then (cell row i) (\<lambda>v. k (py_str v))"
proof (cases "i < length row")
  case True
  with assms have "row ! i \<in> set (take (length (schema result)) row)"
    by (auto simp: in_set_conv_nth intro!: exI [of _ i])
  with assms have "renderable d (row ! i)"
    by (auto simp: values_renderable_def list_all_iff)
  with True show ?thesis
    by (simp add: cell_def py_getitem_def and_then_def py_str_rt_renderable)
next
  case False
  then show ?thesis
    by (simp add: cell_def and_then_def py_str_rt_def py_str_def)
qed

lemma max_data_width_rt_eq:
  assumes "values_renderable (repr_depth rt) result" "i < length (schema result)"
  shows "max_data_width_rt rt (rows result) i = max_data_width (rows result) i"
proof -
  have "mapM (\<lambda>row. and_then (cell row i) (\<lambda>v.
                            and_then (py_str_rt (repr_depth rt) v) (\<lambda>s. Inr (length s)))) (rows result)
      = mapM (\<lambda>row. and_then (cell row i) (\<lambda>v. Inr (length (py_str v)))) (rows result)"
    by (rule mapM_cong_set) (rule cell_renderable [OF assms(1) _ assms(2)])
  then show ?thesis by (simp add: max_data_width_rt_def max_data_width_def)
qed

lemma column_widths_rt_eq:
  assumes "values_renderable (repr_depth rt) result"
  shows "column_widths_rt rt result = column_widths result"
  unfolding column_widths_rt_def column_widths_def
proof (rule mapM_cong_set)
  fix x assume "x \<in> set (List.enumerate 0 (headers_of result))"
  then have "fst x < length (schema result)"
    by (auto simp: enumerate_eq_zip headers_of_def in_set_zip)
  then show "and_then (max_data_width_rt rt (rows result) (fst x))
               (\<lambda>max_data_width. Inr (max (length (snd x)) max_data_width))
           = and_then (max_data_width (rows result) (fst x))
               (\<lambda>max_data_width. Inr (max (length (snd x)) max_data_width))"
    by (simp add: max_data_width_rt_eq [OF assms])
qed

lemma formatted_row_rt_eq:
  assumes "values_renderable (repr_depth rt) result" "row \<in> set (rows result)"
  shows "formatted_row_rt rt (headers_of result) ws row = formatted_row (headers_of result) ws row"
proof -
  have "mapM (\<lambda>i. and_then (cell row i) (\<lambda>v.
                          and_then (py_str_rt (repr_depth rt) v) (\<lambda>s.
                          and_then (py_getitem ws i) (\<lambda>w. Inr (ljust s w)))))
                 [0 ..< length (headers_of result)]
      = mapM (\<lambda>i. and_then (cell row i) (\<lambda>v.
                          and_then (py_getitem ws i) (\<lambda>w. Inr (ljust (py_str v) w))))
                 [0 ..< length (headers_of result)]"
    by (rule mapM_cong_set) (simp add: cell_renderable [OF assms] length_headers_of)
  then show ?thesis by (simp add: formatted_row_rt_def formatted_row_def)
qed

lemma table_lines_rt_eq:
  assumes "values_renderable (repr_depth rt) result"
  shows "table_lines_rt rt result = table_lines result"
proof -
  have "mapM (formatted_row_rt rt (headers_of result) ws) (rows result)
      = mapM (formatted_row (headers_of result) ws) (rows result)" for ws
    by (rule mapM_cong_set) (rule formatted_row_rt_eq [OF assms])
  then show ?thesis
    by (simp add: table_lines_rt_def table_lines_def column_widths_rt_eq [OF assms])
qed

lemma values_foldl_update:
  "snd ` set (foldl (\<lambda>d kv. AList.update (fst kv) (snd kv) d) d ps) \<subseteq> snd ` set d \<union> snd ` set ps"
proof (induction ps arbitrary: d)
  case Nil
  show ?case by simp
next
  case (Cons p ps)
  have "snd ` set (AList.update (fst p) (snd p) d) \<subseteq> insert (snd p) (snd ` set d)"
    by (induction d) auto
  with Cons [of "AList.update (fst p) (snd p) d"] show ?case by auto
qed

lemma values_py_dict_zip: "snd ` set (py_dict (zip hs row)) \<subseteq> set (take (length hs) row)"
proof -
  have "snd ` set (py_dict (zip hs row)) \<subseteq> snd ` set (zip hs row)"
    using values_foldl_update [of "[]" "zip hs row"] by (simp add: py_dict_def)
  also have "\<dots> \<subseteq> set (take (length hs) row)"
  proof
    fix v assume "v \<in> snd ` set (zip hs row)"
    then obtain i where i: "i < length hs" "i < length row" "v = row ! i"
      by (auto simp: in_set_zip)
    then have "i < length (take (length hs) row)" "take (length hs) row ! i = v"
      by simp_all
    then show "v \<in> set (take (length hs) row)"
      by (metis nth_mem)
  qed
  finally show ?thesis .
qed

lemma compact_renderable:
  assumes "values_renderable d result"
  shows "renderable (Suc (Suc d)) (JArr (map JObj (compact_records result)))"
proof -
  have "renderable d (snd kv)"
    if "row \<in> set (rows result)" "kv \<in> set (py_dict (zip (headers_of result) row))" for row kv
  proof -
    from that(2) have "snd kv \<in> set (take (length (headers_of result)) row)"
      using values_py_dict_zip [of "headers_of result" row] by auto
    with assms that(1) show ?thesis
      by (auto simp: values_renderable_def list_all_iff length_headers_of)
  qed
  then show ?thesis
    by (auto simp: compact_records_def list_all_iff)
qed

lemma int_digits_power10: "int_digits (10 ^ k) = Suc k"
proof -
  have "length (str_nat (10 ^ k)) = Suc k" for k
  proof (induction k)
    case 0
    show ?case by simp
  next
    case (Suc k)
    have "\<not> (10 :: nat) ^ Suc k < 10" by simp
    then have "str_nat (10 ^ Suc k) = str_nat (10 ^ Suc k div 10) @ [digit_char (10 ^ Suc k mod 10)]"
      by (subst str_nat.simps) (simp only: if_False)
    then show ?case using Suc by simp
  qed
  moreover have "nat \<bar>(10 :: int) ^ k\<bar> = 10 ^ k"
    by (simp add: nat_power_eq)
  ultimately show ?thesis by (simp only: int_digits_def)
qed

lemma int_digits_huge_int: "int_digits huge_int = 4301"
  unfolding huge_int_def by (simp only: int_digits_power10)

lemma str_int_rt_huge_int: "str_int_rt huge_int = Inl digit_limit_error"
  by (simp add: str_int_rt_def int_digits_huge_int max_str_digits_def)

section \<open>Properties of the result formatter\<close>

text \<open>
  C1. For a query result without rows the tabular formatter returns exactly
  \<open>No results found.\<close>, whatever the schema holds: no header line is printed even when
  the schema has columns.
\<close>

theorem empty_rows_sentinel:
  "rows result = [] \<Longrightarrow> format_query_results result False = Inr ''No results found.''"
  by (simp add: format_query_results_def)

theorem empty_rows_sentinel_witness:
  "rows \<lparr>schema = [\<lparr>columnName = ''Status'', dataTypeName = ''VARCHAR'', nullable = None\<rparr>],
         rows = [], affectedRows = None\<rparr> = []
   \<and> format_query_results
        \<lparr>schema = [\<lparr>columnName = ''Status'', dataTypeName = ''VARCHAR'', nullable = None\<rparr>],
         rows = [], affectedRows = None\<rparr> False
       = Inr ''No results found.''"
  using empty_rows_sentinel
    [of "\<lparr>schema = [\<lparr>columnName = ''Status'', dataTypeName = ''VARCHAR'', nullable = None\<rparr>],
          rows = [], affectedRows = None\<rparr>"]
  by simp

text \<open>
  C3 (as the code has it). For the schema with the columns \<open>Status\<close> and \<open>Count\<close> and the
  rows \<open>["Open", "5"]\<close> and \<open>["Closed", "12"]\<close> the tabular formatter returns the header
  line, the separator line and one line per row, joined by newlines in that order. Every
  cell is left-justified to its column's width, the last one too, so the two row lines
  end in padding spaces: \<open>Open   | 5\<close> is followed by four spaces and \<open>Closed | 12\<close>
  by three.
\<close>

theorem status_count_table:
  "format_query_results
     \<lparr>schema = [\<lparr>columnName = ''Status'', dataTypeName = t1, nullable = n1\<rparr>,
                \<lparr>columnName = ''Count'', dataTypeName = t2, nullable = n2\<rparr>],
      rows = [[JStr ''Open'', JStr ''5''], [JStr ''Closed'', JStr ''12'']],
      affectedRows = a\<rparr> False
   = Inr ''Status | Count\<newline>-------+------\<newline>Open   | 5    \<newline>Closed | 12   ''"
  by (simp add: format_query_results_def table_lines_def column_widths_def headers_of_def
      max_data_width_def cell_def py_getitem_def and_then_def py_str_def header_row_def
      separator_def formatted_row_def ljust_def enumerate_eq_zip upt_rec)

text \<open>
  C3 as the specification words it: the string without the padding after the last column
  is not what the formatter returns.
\<close>

theorem status_count_table_unpadded_counterexample:
  "format_query_results
     \<lparr>schema = [\<lparr>columnName = ''Status'', dataTypeName = ''VARCHAR'', nullable = None\<rparr>,
                \<lparr>columnName = ''Count'', dataTypeName = ''VARCHAR'', nullable = None\<rparr>],
      rows = [[JStr ''Open'', JStr ''5''], [JStr ''Closed'', JStr ''12'']],
      affectedRows = None\<rparr> False
   \<noteq> Inr ''Status | Count\<newline>-------+------\<newline>Open   | 5\<newline>Closed | 12''"
  by (simp add: format_query_results_def table_lines_def column_widths_def headers_of_def
      max_data_width_def cell_def py_getitem_def and_then_def py_str_def header_row_def
      separator_def formatted_row_def ljust_def enumerate_eq_zip upt_rec)

text \<open>
  C2. For a query result with at least one row and for every column index \<open>i\<close> of the
  schema, the computed width of column \<open>i\<close> is the maximum of the length of the header text
  and of the lengths, over all rows, of the stringified value at index \<open>i\<close>; a row without
  a value at index \<open>i\<close> contributes the empty string, of length 0, and the computation
  raises nothing.
\<close>

theorem column_width_is_max:
  assumes "rows result \<noteq> []" and "i < length (schema result)"
  shows "\<exists>widths. column_widths result = Inr widths
           \<and> length widths = length (schema result)
           \<and> widths ! i = spec_column_width result i"
  using assms by (simp add: column_widths_pure)

theorem column_width_is_max_witness:
  "rows sample_result \<noteq> [] \<and> 1 < length (schema sample_result)
   \<and> (\<exists>widths. column_widths sample_result = Inr widths
          \<and> length widths = length (schema sample_result)
          \<and> widths ! 1 = spec_column_width sample_result 1)"
proof -
  have h1: "rows sample_result \<noteq> []" by (simp add: sample_result_def)
  have h2: "1 < length (schema sample_result)" by (simp add: sample_result_def)
  from h1 h2 column_width_is_max [OF h1 h2] show ?thesis by blast
qed

text \<open>
  C5 (as the code has it). For a query result with at least one row, the header line and
  every data row line that the formatter builds have the same length: each cell is padded
  to the computed width of its column and the cells are joined with \<open>" | "\<close>, so every
  such line is as long as the sum of the column widths plus three characters for each gap
  between columns. The output joins these lines with newline characters; when no column
  name and no cell text holds a newline character, they are exactly the lines of the
  output.
\<close>

theorem tabular_lines_equal_length:
  assumes "rows result \<noteq> []"
  shows "\<exists>hrow sep data_rows.
           table_lines result = Inr (hrow # sep # data_rows)
         \<and> format_query_results result False = Inr (join [CHR 0x0A] (hrow # sep # data_rows))
         \<and> hrow = spec_header_line result
         \<and> data_rows = map (spec_row_line result) (rows result)
         \<and> length hrow = sum_list (spec_widths result) + 3 * (length (schema result) - 1)
         \<and> (\<forall>line \<in> set data_rows. length line = length hrow)
         \<and> (no_newlines result \<longrightarrow>
               split_lines (join [CHR 0x0A] (hrow # sep # data_rows)) = hrow # sep # data_rows)"
proof -
  let ?h = "spec_header_line result" and ?s = "separator (spec_widths result)"
  let ?d = "map (spec_row_line result) (rows result)"
  have len: "\<forall>line \<in> set ?d. length line = length ?h"
    by (auto simp: length_spec_row_line length_spec_header_line)
  have split: "split_lines (join [CHR 0x0A] (?h # ?s # ?d)) = ?h # ?s # ?d" if n: "no_newlines result"
  proof (rule split_lines_join)
    show "?h # ?s # ?d \<noteq> []" by simp
    show "list_all (\<lambda>l. CHR 0x0A \<notin> set l) (?h # ?s # ?d)"
      using no_newline_header_line [OF n] no_newline_separator no_newline_row_line [OF n]
      by (auto simp: list_all_iff)
  qed
  have t: "table_lines result = Inr (?h # ?s # ?d)"
    using assms by (simp add: table_lines_pure)
  have f: "format_query_results result False = Inr (join [CHR 0x0A] (?h # ?s # ?d))"
    using assms by (simp add: format_query_results_def t and_then_def)
  have l: "length ?h = sum_list (spec_widths result) + 3 * (length (schema result) - 1)"
    by (rule length_spec_header_line)
  from t f l len split show ?thesis by blast
qed

theorem tabular_lines_equal_length_witness:
  "rows sample_result \<noteq> [] \<and> no_newlines sample_result
   \<and> (\<exists>hrow sep data_rows.
           format_query_results sample_result False = Inr (join [CHR 0x0A] (hrow # sep # data_rows))
         \<and> split_lines (join [CHR 0x0A] (hrow # sep # data_rows)) = hrow # sep # data_rows
         \<and> length data_rows = length (rows sample_result)
         \<and> (\<forall>line \<in> set data_rows. length line = length hrow))"
proof -
  have h: "rows sample_result \<noteq> []" by (simp add: sample_result_def)
  have n: "no_newlines sample_result" by code_simp
  from tabular_lines_equal_length [OF h] obtain hrow sep data_rows where
    a: "format_query_results sample_result False = Inr (join [CHR 0x0A] (hrow # sep # data_rows))"
    and b: "data_rows = map (spec_row_line sample_result) (rows sample_result)"
    and c: "\<forall>line \<in> set data_rows. length line = length hrow"
    and d: "no_newlines sample_result \<longrightarrow>
           split_lines (join [CHR 0x0A] (hrow # sep # data_rows)) = hrow # sep # data_rows"
    by blast
  from b have e: "length data_rows = length (rows sample_result)" by simp
  from h n a c d e show ?thesis by blast
qed

text \<open>
  C5 as the specification words it fails for a cell text with a newline character: the
  formatter does not escape it, so the row of that cell spreads over two lines of the
  output, and the lines of the output have the lengths 4, 4, 2, 1 and 4.
\<close>

theorem multiline_cell_counterexample:
  "rows multiline_cell_result \<noteq> []
   \<and> format_query_results multiline_cell_result False
       = Inr ''note\<newline>----\<newline>ab\<newline>c\<newline>x   ''
   \<and> map length (split_lines ''note\<newline>----\<newline>ab\<newline>c\<newline>x   '') = [4, 4, 2, 1, 4]"
  by (simp add: multiline_cell_result_def format_query_results_def table_lines_def column_widths_def
      headers_of_def max_data_width_def cell_def py_getitem_def and_then_def py_str_def
      header_row_def separator_def formatted_row_def ljust_def enumerate_eq_zip upt_rec)

text \<open>
  C7 (as the code has it). On every query result whose values, within the width of the
  schema, the interpreter can render (every integer has at most 4300 digits, and lists and
  dictionaries nest no deeper than \<open>str\<close> allows, nor deeper than \<open>json.dumps\<close> allows
  below the list and the dictionary that compact mode wraps them in), the result formatter
  raises no error, rows shorter than the schema and no rows at all included: both modes
  return a string, the one that the unbounded functions give. The indexing of a row and of
  the list of widths stays in range and \<open>max\<close> is never taken of an empty sequence.
\<close>

theorem formatter_total_within_limits:
  assumes "values_renderable (repr_depth rt) result"
      and "2 \<le> dumps_depth rt" and "values_renderable (dumps_depth rt - 2) result"
  shows "(\<exists>s. format_query_results_rt rt result False = Inr s
              \<and> format_query_results result False = Inr s)
       \<and> (\<exists>s. format_query_results_rt rt result True = Inr s
              \<and> format_query_results result True = Inr s)"
proof -
  have t: "format_query_results_rt rt result False = format_query_results result False"
    by (simp add: format_query_results_rt_def format_query_results_def
        table_lines_rt_eq [OF assms(1)])
  from assms(2) have d: "dumps_depth rt = Suc (Suc (dumps_depth rt - 2))" by simp
  have "renderable (dumps_depth rt) (JArr (map JObj (compact_records result)))"
    by (subst d) (rule compact_renderable [OF assms(3)])
  then have "json_dumps_rt (dumps_depth rt) (Some 2) (JArr (map JObj (compact_records result)))
      = Inr (json_dumps (Some 2) (JArr (map JObj (compact_records result))))"
    by (simp only: json_dumps_rt_def json_dumps_def json_encode_rt_renderable)
  then have c: "format_query_results_rt rt result True = format_query_results result True"
    by (simp add: format_query_results_rt_def format_query_results_def)
  from format_query_results_returns [of result] t c show ?thesis by metis
qed

theorem formatter_total_within_limits_witness:
  "values_renderable (repr_depth default_runtime) sample_result
   \<and> 2 \<le> dumps_depth default_runtime
   \<and> values_renderable (dumps_depth default_runtime - 2) sample_result
   \<and> (\<exists>s. format_query_results_rt default_runtime sample_result False = Inr s
          \<and> format_query_results sample_result False = Inr s)
   \<and> (\<exists>s. format_query_results_rt default_runtime sample_result True = Inr s
          \<and> format_query_results sample_result True = Inr s)"
proof -
  have dg: "int_digits 12 \<le> max_str_digits"
    by (simp add: int_digits_def max_str_digits_def)
  have v: "values_renderable d sample_result" for d
    by (simp add: values_renderable_def sample_result_def dg)
  have h2: "2 \<le> dumps_depth default_runtime" by (simp add: default_runtime_def)
  from v h2 formatter_total_within_limits [OF v h2 v] show ?thesis by blast
qed

text \<open>
  C7 as the specification words it fails on a query result that holds an integer of 4301
  digits: \<open>str\<close> in tabular mode and \<open>json.dumps\<close> in compact mode raise \<open>ValueError\<close>.
\<close>

theorem huge_int_counterexample:
  "format_query_results_rt default_runtime huge_int_result False = Inl digit_limit_error
   \<and> format_query_results_rt default_runtime huge_int_result True = Inl digit_limit_error"
proof -
  have "json_encode_rt (Suc (Suc d)) (Some 2) 0 (JArr [JObj [(''n'', JInt huge_int)]])
     = Inl digit_limit_error" for d
    by (simp add: and_then_def str_int_rt_huge_int)
  from this [of 998]
  have j: "json_encode_rt 1000 (Some 2) 0 (JArr [JObj [(''n'', JInt huge_int)]])
     = Inl digit_limit_error"
    by simp
  have t: "format_query_results_rt default_runtime huge_int_result False = Inl digit_limit_error"
    by (simp add: format_query_results_rt_def huge_int_result_def table_lines_rt_def
        column_widths_rt_def headers_of_def max_data_width_rt_def cell_def py_getitem_def
        and_then_def py_str_rt_def str_int_rt_huge_int enumerate_eq_zip)
  have c: "format_query_results_rt default_runtime huge_int_result True = Inl digit_limit_error"
    by (simp add: format_query_results_rt_def huge_int_result_def json_dumps_rt_def
        default_runtime_def compact_records_def headers_of_def py_dict_def j)
  from t c show ?thesis by simp
qed

text \<open>
  C10. Values of a row beyond the length of the schema are ignored by both modes: cutting
  every row down to the length of the schema changes neither the output of
  \<open>format_query_results\<close> in either mode, nor the compact records, nor the column widths.
\<close>

theorem extra_values_ignored:
  "format_query_results (truncate_rows result) compact = format_query_results result compact
   \<and> compact_records (truncate_rows result) = compact_records result
   \<and> column_widths (truncate_rows result) = column_widths result"
proof -
  have e: "(rows (truncate_rows result) = []) = (rows result = [])"
    by (simp add: truncate_rows_def)
  have "column_widths (truncate_rows result) = column_widths result"
  proof (cases "rows result = []")
    case True
    then have "truncate_rows result = result" by (simp add: truncate_rows_def)
    then show ?thesis by simp
  next
    case False
    with e show ?thesis
      by (simp add: column_widths_pure spec_widths_truncate flip: spec_widths_def)
  qed
  then show ?thesis
    by (simp add: format_query_results_def e table_lines_truncate compact_records_truncate)
qed

section \<open>Properties of compact mode\<close>

text \<open>
  C4 (as the code has it). The compact records are one per row, in row order, and the
  record of a row is the dictionary built from the column names zipped with the row's
  values. Every record holds each of its keys once, and its keys are the names of the
  first \<open>len(row)\<close> columns. When the column names are pairwise distinct, the record is
  exactly the positional pairing of names and values: a row as long as the schema gets the
  schema's column names, each once and in schema order, and a shorter row gets no key for
  any column beyond its length.
\<close>

theorem compact_records_by_position:
  assumes "j < length (rows result)"
  shows "length (compact_records result) = length (rows result)
       \<and> compact_records result ! j = py_dict (zip (headers_of result) (rows result ! j))
       \<and> distinct (map fst (compact_records result ! j))
       \<and> set (map fst (compact_records result ! j))
           = set (take (length (rows result ! j)) (headers_of result))
       \<and> (distinct (headers_of result) \<longrightarrow>
            compact_records result ! j = zip (headers_of result) (rows result ! j)
          \<and> map fst (compact_records result ! j) = take (length (rows result ! j)) (headers_of result)
          \<and> (\<forall>i. length (rows result ! j) \<le> i \<and> i < length (headers_of result)
                 \<longrightarrow> headers_of result ! i \<notin> set (map fst (compact_records result ! j))))"
proof -
  let ?hs = "headers_of result" and ?row = "rows result ! j"
  have rec: "compact_records result ! j = py_dict (zip ?hs ?row)"
    using assms by (simp add: compact_records_def)
  have keys: "map fst (zip ?hs ?row) = take (length ?row) ?hs"
    by (rule map_fst_zip_headers)
  have c1: "length (compact_records result) = length (rows result)"
    by (simp add: compact_records_def)
  have c2: "distinct (map fst (compact_records result ! j))"
    by (simp only: rec distinct_py_dict)
  have c3: "set (map fst (compact_records result ! j)) = set (take (length ?row) ?hs)"
    by (simp only: rec keys_py_dict keys)
  have c4: "compact_records result ! j = zip ?hs ?row
          \<and> map fst (compact_records result ! j) = take (length ?row) ?hs
          \<and> (\<forall>i. length ?row \<le> i \<and> i < length ?hs
                 \<longrightarrow> ?hs ! i \<notin> set (map fst (compact_records result ! j)))"
    if d: "distinct ?hs"
  proof -
    from d have "distinct (map fst (zip ?hs ?row))"
      by (simp only: keys distinct_take)
    then have eq: "compact_records result ! j = zip ?hs ?row"
      by (simp only: rec py_dict_distinct)
    have absent: "?hs ! i \<notin> set (take (length ?row) ?hs)"
      if "length ?row \<le> i" "i < length ?hs" for i
    proof
      assume "?hs ! i \<in> set (take (length ?row) ?hs)"
      then obtain k where k: "k < length ?row" "k < length ?hs" "?hs ! k = ?hs ! i"
        by (auto simp: in_set_conv_nth)
      with d that have "k = i" by (simp add: nth_eq_iff_index_eq)
      with k that show False by simp
    qed
    show ?thesis using absent by (simp add: eq keys)
  qed
  from c1 rec c2 c3 c4 show ?thesis by blast
qed

theorem compact_records_by_position_witness:
  "0 < length (rows sample_result) \<and> distinct (headers_of sample_result)
   \<and> length (compact_records sample_result) = length (rows sample_result)
   \<and> compact_records sample_result ! 0 = zip (headers_of sample_result) (rows sample_result ! 0)
   \<and> map fst (compact_records sample_result ! 0)
       = take (length (rows sample_result ! 0)) (headers_of sample_result)
   \<and> headers_of sample_result ! 1 \<notin> set (map fst (compact_records sample_result ! 0))"
proof -
  have h: "0 < length (rows sample_result)" by (simp add: sample_result_def)
  have d: "distinct (headers_of sample_result)" by (simp add: sample_result_def headers_of_def)
  have i: "length (rows sample_result ! 0) \<le> 1 \<and> 1 < length (headers_of sample_result)"
    by (simp add: sample_result_def headers_of_def)
  from h d i compact_records_by_position [OF h] show ?thesis by blast
qed

text \<open>
  C4 as the specification words it fails when a column name is repeated: for the schema
  with two columns both named \<open>a\<close> and the row \<open>[1]\<close>, the row is shorter than the schema
  and the name of the second column is a key of the record all the same.
\<close>

theorem duplicate_name_counterexample:
  "length (rows \<lparr>schema = [\<lparr>columnName = ''a'', dataTypeName = ''INT'', nullable = None\<rparr>,
                          \<lparr>columnName = ''a'', dataTypeName = ''INT'', nullable = None\<rparr>],
                rows = [[JInt 1]], affectedRows = None\<rparr> ! 0) = 1
   \<and> columnName (schema \<lparr>schema = [\<lparr>columnName = ''a'', dataTypeName = ''INT'', nullable = None\<rparr>,
                          \<lparr>columnName = ''a'', dataTypeName = ''INT'', nullable = None\<rparr>],
                rows = [[JInt 1]], affectedRows = None\<rparr> ! 1)
       \<in> set (map fst (compact_records
                \<lparr>schema = [\<lparr>columnName = ''a'', dataTypeName = ''INT'', nullable = None\<rparr>,
                          \<lparr>columnName = ''a'', dataTypeName = ''INT'', nullable = None\<rparr>],
                rows = [[JInt 1]], affectedRows = None\<rparr> ! 0))"
  by (simp add: compact_records_def headers_of_def py_dict_def)

text \<open>
  C6 (as the code has it). For a query result without rows the compact records are the
  empty sequence. The string \<open>No results found.\<close> is what \<open>format_query_results\<close> returns
  for such a result in both of its modes, compact mode included: the test for no rows
  comes before the choice of the mode.
\<close>

theorem empty_rows_both_modes:
  assumes "rows result = []"
  shows "compact_records result = []
       \<and> format_query_results result True = Inr ''No results found.''
       \<and> format_query_results result False = Inr ''No results found.''"
  using assms by (simp add: compact_records_def format_query_results_def)

theorem empty_rows_both_modes_witness:
  "rows (sample_result\<lparr>rows := []\<rparr>) = []
   \<and> compact_records (sample_result\<lparr>rows := []\<rparr>) = []
   \<and> format_query_results (sample_result\<lparr>rows := []\<rparr>) True = Inr ''No results found.''
   \<and> format_query_results (sample_result\<lparr>rows := []\<rparr>) False = Inr ''No results found.''"
  using empty_rows_both_modes [of "sample_result\<lparr>rows := []\<rparr>"] by simp

text \<open>
  C6 as the specification words it: in compact mode \<open>format_query_results\<close> returns the
  sentinel string for a result without rows, not the encoding of an empty sequence.
\<close>

theorem compact_mode_sentinel_counterexample:
  "format_query_results \<lparr>schema = [], rows = [], affectedRows = None\<rparr> True
     = Inr ''No results found.''
   \<and> format_query_results \<lparr>schema = [], rows = [], affectedRows = None\<rparr> True
     \<noteq> Inr (json_dumps (Some 2) (JArr []))"
  by (simp add: format_query_results_def json_dumps_def)

section \<open>Properties of the API gateway\<close>

text \<open>
  C8 (as the code has it). When the credentials are set and the transport answers with a
  response whose status code is from 400 to 599, the codes for which \<open>response.ok\<close> is
  false, every operation fails with the \<open>RequestError\<close> built from that response, its
  status code and its body, after the one request it sent; no other exception is raised.
\<close>

theorem error_status_is_request_error:
  assumes "env ''CONNECT_AI_EMAIL'' = Some email" "email \<noteq> []"
      and "env ''CONNECT_AI_TOKEN'' = Some token" "token \<noteq> []"
      and n: "\<And>req. net req = Inr (reply req)"
      and s: "\<And>req. 400 \<le> status_code (reply req) \<and> status_code (reply req) < 600"
  shows "(\<exists>req. make_request env net endpoint ''GET'' body = (Inl (RequestError (reply req)), [req]))
       \<and> (\<exists>req. make_request env net endpoint ''POST'' body = (Inl (RequestError (reply req)), [req]))
       \<and> (\<exists>req. get_catalogs env net = (Inl (RequestError (reply req)), [req]))
       \<and> (\<exists>req. get_schemas env net catalog_name schema_name
                  = (Inl (RequestError (reply req)), [req]))
       \<and> (\<exists>req. get_tables env net catalog_name schema_name table_name table_type
                  = (Inl (RequestError (reply req)), [req]))
       \<and> (\<exists>req. execute_query env net query default_schema schema_only parameters
                  = (Inl (RequestError (reply req)), [req]))
       \<and> (\<exists>req. get_table_columns env net c s t = (Inl (RequestError (reply req)), [req]))
       \<and> (\<exists>req. execute_query_compact env net query = (Inl (RequestError (reply req)), [req]))"
proof -
  have b: "\<not> ok (reply req)" for req
    using s [of req] by (simp add: ok_def)
  have c: "get_auth_credentials env = Inr (email, token)"
    using assms(1-4) by (rule credentials_present)
  have g: "\<exists>req. make_request env net ep ''GET'' bd = (Inl (RequestError (reply req)), [req])"
    for ep bd by (rule make_request_not_ok [OF c _ n b]) simp
  have p: "\<exists>req. make_request env net ep ''POST'' bd = (Inl (RequestError (reply req)), [req])"
    for ep bd by (rule make_request_not_ok [OF c _ n b]) simp
  have q: "\<exists>req. execute_query env net qq ds so ps = (Inl (RequestError (reply req)), [req])"
    for qq ds so ps
    unfolding execute_query_def Let_def by (rule decode_with_not_ok) (rule p)
  have "\<exists>req. get_catalogs env net = (Inl (RequestError (reply req)), [req])"
    unfolding get_catalogs_def by (rule decode_with_not_ok) (rule g)
  moreover have "\<exists>req. get_schemas env net catalog_name schema_name
      = (Inl (RequestError (reply req)), [req])"
    unfolding get_schemas_def by (rule decode_with_not_ok) (rule g)
  moreover have "\<exists>req. get_tables env net catalog_name schema_name table_name table_type
      = (Inl (RequestError (reply req)), [req])"
    unfolding get_tables_def by (rule decode_with_not_ok) (rule g)
  moreover have "\<exists>req. get_table_columns env net c s t = (Inl (RequestError (reply req)), [req])"
    unfolding get_table_columns_def by (rule q)
  moreover have "\<exists>req. execute_query_compact env net query = (Inl (RequestError (reply req)), [req])"
    unfolding execute_query_compact_def by (rule decode_with_not_ok) (rule q)
  ultimately show ?thesis using g p q by blast
qed

theorem error_status_is_request_error_witness:
  "sample_environ ''CONNECT_AI_EMAIL'' = Some ''a@b.c'' \<and> ''a@b.c'' \<noteq> []
   \<and> sample_environ ''CONNECT_AI_TOKEN'' = Some ''tok'' \<and> ''tok'' \<noteq> []
   \<and> 400 \<le> status_code server_error \<and> status_code server_error < 600
   \<and> (\<exists>req. execute_query sample_environ (\<lambda>req. Inr server_error) ''SELECT 1'' None False None
          = (Inl (RequestError server_error), [req]))
   \<and> (\<exists>req. get_catalogs sample_environ (\<lambda>req. Inr server_error)
          = (Inl (RequestError server_error), [req]))
   \<and> RequestError server_error = Exception ''Connect AI API error (500): Internal Server Error''"
proof -
  have e: "sample_environ ''CONNECT_AI_EMAIL'' = Some ''a@b.c''" "''a@b.c'' \<noteq> []"
    and t: "sample_environ ''CONNECT_AI_TOKEN'' = Some ''tok''" "''tok'' \<noteq> []"
    by (simp_all add: sample_environ_def)
  have b: "400 \<le> status_code server_error \<and> status_code server_error < 600"
    by (simp add: server_error_def)
  have r: "RequestError server_error = Exception ''Connect AI API error (500): Internal Server Error''"
    by code_simp
  from e t b r
    error_status_is_request_error
      [of sample_environ "''a@b.c''" "''tok''" "\<lambda>req. Inr server_error" "\<lambda>req. server_error",
       OF e t refl b]
  show ?thesis by blast
qed

text \<open>
  C8 as the specification words it fails for a status that is no success and no error
  either: \<open>304\<close> is not a 2xx code, \<open>response.ok\<close> is true for it, and with its empty body
  the operations end in the \<open>JSONDecodeError\<close> of \<open>response.json()\<close>.
\<close>

theorem not_modified_counterexample:
  "\<not> (200 \<le> status_code not_modified \<and> status_code not_modified < 300)
   \<and> fst (make_request sample_environ (\<lambda>req. Inr not_modified) ''/catalogs'' ''GET'' None)
       = Inl JSONDecodeError
   \<and> fst (get_catalogs sample_environ (\<lambda>req. Inr not_modified)) = Inl JSONDecodeError
   \<and> fst (execute_query sample_environ (\<lambda>req. Inr not_modified) ''SELECT 1'' None False None)
       = Inl JSONDecodeError
   \<and> Inl JSONDecodeError \<noteq> (Inl (RequestError not_modified) :: json result)"
  by (simp add: not_modified_def make_request_def get_auth_credentials_def sample_environ_def
      send_def ok_def response_json_def get_catalogs_def execute_query_def decode_with_def
      and_then_def RequestError_def Let_def)

text \<open>
  C9. When one of the two credentials is absent from the environment, every operation
  fails with the \<open>ConfigurationError\<close> and has sent no request.
\<close>

theorem missing_credentials_fail_before_request:
  assumes "env ''CONNECT_AI_EMAIL'' = None \<or> env ''CONNECT_AI_TOKEN'' = None"
  shows "get_auth_credentials env = Inl ConfigurationError
       \<and> make_request env net endpoint meth body = (Inl ConfigurationError, [])
       \<and> get_catalogs env net = (Inl ConfigurationError, [])
       \<and> get_schemas env net catalog_name schema_name = (Inl ConfigurationError, [])
       \<and> get_tables env net catalog_name schema_name table_name table_type
           = (Inl ConfigurationError, [])
       \<and> execute_query env net query default_schema schema_only parameters
           = (Inl ConfigurationError, [])
       \<and> get_table_columns env net c s t = (Inl ConfigurationError, [])
       \<and> execute_query_compact env net query = (Inl ConfigurationError, [])"
proof -
  have c: "get_auth_credentials env = Inl ConfigurationError"
    using assms by (rule credentials_absent)
  note m = make_request_no_credentials [OF c]
  note q = execute_query_no_credentials [OF c]
  show ?thesis
    by (simp add: c m q get_catalogs_def get_schemas_def get_tables_def get_table_columns_def
        execute_query_compact_def decode_with_error)
qed

theorem missing_credentials_fail_before_request_witness:
  "(token_only_environ ''CONNECT_AI_EMAIL'' = None
      \<or> token_only_environ ''CONNECT_AI_TOKEN'' = None)
   \<and> make_request token_only_environ (\<lambda>req. Inr server_error)
         ''/catalogs'' ''GET'' None = (Inl ConfigurationError, [])
   \<and> execute_query_compact token_only_environ (\<lambda>req. Inr server_error)
         ''SELECT 1'' = (Inl ConfigurationError, [])"
proof -
  have h: "token_only_environ ''CONNECT_AI_EMAIL'' = None
      \<or> token_only_environ ''CONNECT_AI_TOKEN'' = None"
    by (simp add: token_only_environ_def)
  from h missing_credentials_fail_before_request [OF h, of "\<lambda>req. Inr server_error"]
  show ?thesis by blast
qed

end
